theory Spec2Isabelle
  imports Main "HOL-Library.AList" "HOL-Library.Char_ord"
    "HOL-Library.List_Lexorder" "HOL-Library.Product_Lexorder" "HOL-Library.Multiset"
begin

section \<open>The file content extractor of \<^verbatim>\<open>main.py\<close>\<close>

text \<open>
  The program is one Python script: three helper functions over paths and
  files (\<^verbatim>\<open>is_binary_file\<close>, \<^verbatim>\<open>should_ignore_path\<close>,
  \<^verbatim>\<open>extract_file_content\<close>), a directory walk
  (\<^verbatim>\<open>get_files_from_directory\<close>) and the page script that merges
  uploads with the walk, lets the user untick files, joins the extracted
  contents and cleans the temporary files up.

  A Python \<^verbatim>\<open>str\<close> is modelled as a \<open>string\<close> holding its UTF-8
  encoding. The script only concatenates, compares, sorts and glob-matches
  strings and tests prefixes; all of these agree on code points and on their
  UTF-8 bytes. A byte of a file is a \<open>char\<close> as well (the 8-bit type of HOL), so
  the bytes of a file are a \<open>char list\<close>.
\<close>

subsection \<open>Path classifier: \<^verbatim>\<open>should_ignore_path\<close>\<close>

text \<open>
  \<^verbatim>\<open>fnmatch.fnmatchcase(name, pat)\<close>: the pattern is matched against the whole
  name; \<^verbatim>\<open>*\<close> matches every run of characters (the library translates it to
  the regular expression \<^verbatim>\<open>.*\<close> under the flag that lets the dot match
  everything, so a \<^verbatim>\<open>/\<close> is a character like any other), \<^verbatim>\<open>?\<close> matches one
  character, every other character matches itself. Bracket expressions are
  not modelled: no pattern of the ignore list holds a bracket.
\<close>

fun fnmatchcase :: "string \<Rightarrow> string \<Rightarrow> bool" where
  "fnmatchcase [] [] = True"
| "fnmatchcase (c # cs) [] = False"
| "fnmatchcase [] (p # ps) = (p = CHR ''*'' \<and> fnmatchcase [] ps)"
| "fnmatchcase (c # cs) (p # ps) =
     (if p = CHR ''*'' then fnmatchcase (c # cs) ps \<or> fnmatchcase cs (p # ps)
      else if p = CHR ''?'' then fnmatchcase cs ps
      else c = p \<and> fnmatchcase cs ps)"

text \<open>
  \<^verbatim>\<open>fnmatch.fnmatch\<close> first normalises the case of both arguments with
  \<^verbatim>\<open>os.path.normcase\<close>, which is the identity on POSIX systems (the script
  joins paths with \<^verbatim>\<open>/\<close>).
\<close>

definition fnmatch :: "string \<Rightarrow> string \<Rightarrow> bool" where
  "fnmatch name pat = fnmatchcase name pat"

text \<open>
  The list literal of the source. Python joins adjacent string literals, so
  the two literals \<^verbatim>\<open>'.DS_Store'\<close> and \<^verbatim>\<open>'*.pdf'\<close>, which no comma separates
  (the first ends a line, a blank line and a comment line follow, the second
  starts the next line), are the single element \<^verbatim>\<open>'.DS_Store*.pdf'\<close>.
\<close>

definition ignore_patterns :: "string list" where
  "ignore_patterns =
    [''env/*'', ''.env/*'', ''venv/*'', ''.venv/*'',
     ''.gitignore'', ''.git/*'',
     ''__pycache__/*'', ''*.pyc'', ''*.pyo'',
     ''.pytest_cache/*'', ''.coverage'',
     ''.DS_Store'', ''Thumbs.db'',
     ''node_modules/*'', ''.npm/*'',
     ''.cache/*'', ''*.log'',
     ''*.min'', ''*.svg'', ''*.min.css'', ''*.woff'', ''*.min.js'',
     ''*.woff2'', ''*._.DS_Store'', ''*.DS_Store'', ''.DS_Store*.pdf'',
     ''*.png'', ''*.jpg'', ''*.jpeg'', ''*.gif'', ''*.ico'',
     ''*.zip'', ''*.tar'', ''*.gz'', ''*.rar'', ''*.7z'',
     ''*.exe'', ''*.dll'', ''*.so'', ''*.dylib'',
     ''*.db'', ''*.sqlite'', ''*.sqlite3'',
     ''*.pkl'', ''*.pickle'',
     ''*.bin'', ''*.dat'',
     ''*.mp3'', ''*.wav'', ''*.mp4'', ''*.avi'', ''*.mov'',
     ''*.doc'', ''*.docx'', ''*.xls'', ''*.xlsx'', ''*.ppt'',
     ''*.psd'', ''*.ai'']"

definition should_ignore_path :: "string \<Rightarrow> bool" where
  "should_ignore_path path = list_ex (fnmatch path) ignore_patterns"

subsection \<open>Exceptions and the outside world\<close>

text \<open>
  The exceptions the script tells apart: \<^verbatim>\<open>UnicodeDecodeError\<close>, and every other
  subclass of \<^verbatim>\<open>Exception\<close>, which carries the text \<^verbatim>\<open>str(e)\<close> that the
  script prints. A function that can raise returns \<open>exn + 'a\<close>, with \<open>Inl\<close> for
  the exception.
\<close>

type_synonym bytes = "char list"

datatype exn = UnicodeDecodeError | OtherException string

text \<open>
  The string \<^verbatim>\<open>str(e)\<close>. For a decoding error only its first words are kept;
  the script never prints them.
\<close>

fun str_exn :: "exn \<Rightarrow> string" where
  "str_exn UnicodeDecodeError = ''codec can not decode''"
| "str_exn (OtherException msg) = msg"

text \<open>
  A directory tree as \<^verbatim>\<open>os.walk\<close> sees it: a directory lists its entries by
  name, in the order \<^verbatim>\<open>os.scandir\<close> yields them. A symbolic link to a file is
  a file; a symbolic link to a directory is never walked into and is left out.
\<close>

datatype fs_node = File | Dir "(string \<times> fs_node) list"

text \<open>
  What the script reads from its environment:
  \<^item> \<open>guess_type\<close>: the first component of \<^verbatim>\<open>mimetypes.guess_type(path)\<close>, a
    type or \<^verbatim>\<open>None\<close>, or the exception the call raises (the library parses
    the path as a URL first and raises \<^verbatim>\<open>ValueError\<close> on some, such as
    \<^verbatim>\<open>//proj[1]/a.txt\<close>);
  \<^item> \<open>files\<close>: what opening a path and reading it to the end gives, the bytes or
    the exception raised by \<^verbatim>\<open>open\<close> or \<^verbatim>\<open>read\<close>;
  \<^item> \<open>tree_at\<close>: the directory tree below a path, \<open>None\<close> when
    \<^verbatim>\<open>os.path.exists\<close> is false (the tree of a path that is a file is \<open>File\<close>);
  \<^item> \<open>tempdir\<close>: \<^verbatim>\<open>tempfile.gettempdir()\<close>;
  \<^item> \<open>unlink_error\<close>: the exception \<^verbatim>\<open>os.unlink(path)\<close> would raise, \<open>None\<close> when
    it succeeds.
\<close>

record world =
  guess_type :: "string \<Rightarrow> exn + string option"
  files :: "string \<Rightarrow> exn + bytes"
  tree_at :: "string \<Rightarrow> fs_node option"
  tempdir :: string
  unlink_error :: "string \<Rightarrow> exn option"

text \<open>The file opens a function performs, in order.\<close>

datatype io_event = OpenRb string | OpenText string

definition startswith :: "string \<Rightarrow> string \<Rightarrow> bool" where
  "startswith s pre = (take (length pre) s = pre)"

subsection \<open>Binary detector: \<^verbatim>\<open>is_binary_file\<close>\<close>

text \<open>
  The body of the \<^verbatim>\<open>try\<close>: open in mode \<^verbatim>\<open>'rb'\<close>, read at most 1024 bytes, look
  for a null byte. It raises what \<^verbatim>\<open>open\<close> or \<^verbatim>\<open>read\<close> raises.
\<close>

definition read_chunk :: "world \<Rightarrow> string \<Rightarrow> nat \<Rightarrow> exn + bytes" where
  "read_chunk W file_path n =
     (case files W file_path of Inl e \<Rightarrow> Inl e | Inr content \<Rightarrow> Inr (take n content))"

definition sniff :: "world \<Rightarrow> string \<Rightarrow> exn + bool" where
  "sniff W file_path =
     (case read_chunk W file_path 1024 of
        Inl e \<Rightarrow> Inl e
      | Inr chunk \<Rightarrow> Inr (CHR 0x00 \<in> set chunk))"

text \<open>\<^verbatim>\<open>if mime_type:\<close> holds for a string that is neither \<^verbatim>\<open>None\<close> nor empty.\<close>

fun truthy :: "string option \<Rightarrow> bool" where
  "truthy None = False"
| "truthy (Some s) = (s \<noteq> [])"

text \<open>
  The call of \<^verbatim>\<open>mimetypes.guess_type\<close> stands before the \<^verbatim>\<open>try\<close>: what it raises
  leaves \<^verbatim>\<open>is_binary_file\<close>. Only the open and the read are guarded.
\<close>

definition is_binary_file :: "world \<Rightarrow> string \<Rightarrow> (exn + bool) \<times> io_event list" where
  "is_binary_file W file_path =
     (case guess_type W file_path of
        Inl e \<Rightarrow> (Inl e, [])
      | Inr mime_type \<Rightarrow>
          if truthy mime_type then
            (Inr (\<not> startswith (the mime_type) ''text/''), [])
          else
            (case sniff W file_path of
               Inr found \<Rightarrow> (Inr found, [OpenRb file_path])
             | Inl e \<Rightarrow> (Inr True, [OpenRb file_path])))"

subsection \<open>Content extractor: \<^verbatim>\<open>extract_file_content\<close>\<close>

text \<open>
  Reading a file opened with \<^verbatim>\<open>open(path, 'r', encoding='utf-8')\<close>: the bytes
  are decoded strictly (the well-formed byte sequences of the Unicode standard:
  no overlong form, no surrogate, nothing above U+10FFFF), and the default
  newline mode turns \<^verbatim>\<open>\r\n\<close> and a lone \<^verbatim>\<open>\r\<close> into \<^verbatim>\<open>\n\<close>.
\<close>

definition in_range :: "nat \<Rightarrow> nat \<Rightarrow> char \<Rightarrow> bool" where
  "in_range lo hi b = (lo \<le> of_char b \<and> (of_char b :: nat) \<le> hi)"

fun utf8_valid :: "bytes \<Rightarrow> bool" where
  "utf8_valid [] = True"
| "utf8_valid (b # bs) =
     (let n = (of_char b :: nat) in
      if n < 0x80 then utf8_valid bs
      else if 0xC2 \<le> n \<and> n \<le> 0xDF then
        (case bs of
           c1 # r \<Rightarrow> in_range 0x80 0xBF c1 \<and> utf8_valid r
         | _ \<Rightarrow> False)
      else if 0xE0 \<le> n \<and> n \<le> 0xEF then
        (case bs of
           c1 # c2 # r \<Rightarrow>
             in_range (if n = 0xE0 then 0xA0 else 0x80) (if n = 0xED then 0x9F else 0xBF) c1
             \<and> in_range 0x80 0xBF c2 \<and> utf8_valid r
         | _ \<Rightarrow> False)
      else if 0xF0 \<le> n \<and> n \<le> 0xF4 then
        (case bs of
           c1 # c2 # c3 # r \<Rightarrow>
             in_range (if n = 0xF0 then 0x90 else 0x80) (if n = 0xF4 then 0x8F else 0xBF) c1
             \<and> in_range 0x80 0xBF c2 \<and> in_range 0x80 0xBF c3 \<and> utf8_valid r
         | _ \<Rightarrow> False)
      else False)"

fun universal_newlines :: "string \<Rightarrow> string" where
  "universal_newlines [] = []"
| "universal_newlines [c] = (if c = CHR 0x0D then [CHR 0x0A] else [c])"
| "universal_newlines (c # d # ds) =
     (if c = CHR 0x0D \<and> d = CHR 0x0A then CHR 0x0A # universal_newlines ds
      else if c = CHR 0x0D then CHR 0x0A # universal_newlines (d # ds)
      else c # universal_newlines (d # ds))"

definition read_text :: "world \<Rightarrow> string \<Rightarrow> exn + string" where
  "read_text W file_path =
     (case files W file_path of
        Inl e \<Rightarrow> Inl e
      | Inr content \<Rightarrow>
          if utf8_valid content then Inr (universal_newlines content)
          else Inl UnicodeDecodeError)"

text \<open>
  \<^verbatim>\<open>is_binary_file\<close> is called before the \<^verbatim>\<open>try\<close>: an exception of it leaves
  \<^verbatim>\<open>extract_file_content\<close> as it is. The two \<^verbatim>\<open>except\<close> clauses are the two
  cases of \<open>Inl\<close> of the read.
\<close>

definition extract_file_content :: "world \<Rightarrow> string \<Rightarrow> (exn + string) \<times> io_event list" where
  "extract_file_content W file_path =
     (case is_binary_file W file_path of
        (Inl e, tr) \<Rightarrow> (Inl e, tr)
      | (Inr True, tr) \<Rightarrow> (Inr (''[Skipped binary file: '' @ file_path @ '']''), tr)
      | (Inr False, tr) \<Rightarrow>
          (case read_text W file_path of
             Inr content \<Rightarrow> Inr content
           | Inl UnicodeDecodeError \<Rightarrow>
               Inr (''[Skipped: File '' @ file_path @ '' is not valid UTF-8 text]'')
           | Inl (OtherException msg) \<Rightarrow>
               Inr (''[Error reading file '' @ file_path @ '': '' @ msg @ '']''),
           tr @ [OpenText file_path]))"

subsection \<open>Tree collector: \<^verbatim>\<open>get_files_from_directory\<close>\<close>

definition endswith :: "string \<Rightarrow> string \<Rightarrow> bool" where
  "endswith s suf = startswith (rev s) (rev suf)"

text \<open>\<^verbatim>\<open>os.path.join\<close> of two components on a POSIX system.\<close>

definition os_path_join :: "string \<Rightarrow> string \<Rightarrow> string" where
  "os_path_join a b =
     (if startswith b ''/'' then b
      else if a = [] \<or> endswith a ''/'' then a @ b
      else a @ ''/'' @ b)"

text \<open>
  \<^verbatim>\<open>os.path.relpath(full_path, directory_path)\<close> for a file met by the walk: the
  names of the directories between \<^verbatim>\<open>directory_path\<close> and the file and the
  file's name, joined by \<^verbatim>\<open>/\<close>. The walk carries the directory part \<open>rel\<close>
  (empty at the top) beside \<^verbatim>\<open>root\<close>. The names \<^verbatim>\<open>os.scandir\<close> yields are not
  empty, hold no \<^verbatim>\<open>/\<close> and are neither \<^verbatim>\<open>.\<close> nor \<^verbatim>\<open>..\<close>.
\<close>

definition rel_join :: "string \<Rightarrow> string \<Rightarrow> string" where
  "rel_join rel name = (if rel = [] then name else rel @ ''/'' @ name)"

text \<open>A Python \<^verbatim>\<open>dict\<close> keeps insertion order; assigning to a key it holds
  replaces the value in place. \<open>AList.update\<close> does both.\<close>

type_synonym files_dict = "(string \<times> string) list"

text \<open>The body of \<^verbatim>\<open>for file in files\<close>.\<close>

definition collect_file :: "string set \<Rightarrow> string \<Rightarrow> string \<Rightarrow> files_dict \<Rightarrow> string \<Rightarrow> files_dict" where
  "collect_file ignore_list root rel files_dict file =
     (let full_path = os_path_join root file;
          rel_path = rel_join rel file
      in if rel_path \<notin> ignore_list \<and> \<not> should_ignore_path rel_path
         then AList.update rel_path full_path files_dict
         else files_dict)"

fun file_names :: "(string \<times> fs_node) list \<Rightarrow> string list" where
  "file_names [] = []"
| "file_names ((name, File) # es) = name # file_names es"
| "file_names ((name, Dir sub) # es) = file_names es"

text \<open>
  The loop over \<^verbatim>\<open>os.walk(directory_path)\<close>, top down: \<open>walk\<close> handles one
  directory (its files, then its subdirectories), \<open>walk_dirs\<close> goes through the
  entries of the directory and descends into every subdirectory whose bare
  name \<^verbatim>\<open>should_ignore_path\<close> lets through (the assignment to \<^verbatim>\<open>dirs[:]\<close>).
  \<^verbatim>\<open>os.walk\<close> on a path that is no directory yields nothing.
\<close>

fun walk :: "string set \<Rightarrow> string \<Rightarrow> string \<Rightarrow> fs_node \<Rightarrow> files_dict \<Rightarrow> files_dict"
  and walk_dirs :: "string set \<Rightarrow> string \<Rightarrow> string \<Rightarrow> (string \<times> fs_node) list \<Rightarrow> files_dict \<Rightarrow> files_dict"
where
  "walk ignore_list root rel File files_dict = files_dict"
| "walk ignore_list root rel (Dir entries) files_dict =
     walk_dirs ignore_list root rel entries
       (foldl (collect_file ignore_list root rel) files_dict (file_names entries))"
| "walk_dirs ignore_list root rel [] files_dict = files_dict"
| "walk_dirs ignore_list root rel ((d, File) # es) files_dict =
     walk_dirs ignore_list root rel es files_dict"
| "walk_dirs ignore_list root rel ((d, Dir sub) # es) files_dict =
     (if should_ignore_path d then walk_dirs ignore_list root rel es files_dict
      else walk_dirs ignore_list root rel es
             (walk ignore_list (os_path_join root d) (rel_join rel d) (Dir sub) files_dict))"

text \<open>The tree below \<^verbatim>\<open>directory_path\<close> is an argument; \<^verbatim>\<open>ignore_list=None\<close> is
  the empty set.\<close>

definition get_files_from_directory :: "fs_node \<Rightarrow> string \<Rightarrow> string set \<Rightarrow> files_dict" where
  "get_files_from_directory tree directory_path ignore_list =
     walk ignore_list directory_path [] tree []"

subsection \<open>The page script\<close>

text \<open>
  The inputs of one run of the script: the uploaded files (name and bytes), the
  text of the directory field, the state of each checkbox, whether the button
  was pressed, and the random part of the name \<^verbatim>\<open>tempfile.NamedTemporaryFile\<close>
  draws for the i-th upload.
\<close>

record inputs =
  uploaded_files :: "(string \<times> bytes) list"
  uploaded_dir :: string
  checkbox :: "string \<Rightarrow> bool"
  button :: bool
  random_name :: "nat \<Rightarrow> string"


definition NamedTemporaryFile_name :: "world \<Rightarrow> string \<Rightarrow> string" where
  "NamedTemporaryFile_name W rnd = os_path_join (tempdir W) (''tmp'' @ rnd)"

text \<open>
  A file made in the temporary directory shows in the tree of that directory
  and of every directory above it. \<open>split_slash\<close> is \<^verbatim>\<open>str.split('/')\<close>;
  \<open>segments_below q dir\<close> gives the names that lead from the directory \<open>q\<close>
  down to \<open>dir\<close> when the text of \<open>dir\<close> is that of \<open>q\<close> followed by them (the
  two paths are compared as they are written: another spelling of the same
  directory, relative or with \<^verbatim>\<open>..\<close>, is not recognised); \<open>add_at\<close> puts a
  new file at the end of the directory these names lead to.
\<close>

fun split_slash :: "string \<Rightarrow> string list" where
  "split_slash [] = [[]]"
| "split_slash (c # cs) =
     (if c = CHR ''/'' then [] # split_slash cs
      else (case split_slash cs of
              seg # segs \<Rightarrow> (c # seg) # segs
            | [] \<Rightarrow> [[c]]))"

definition segments_below :: "string \<Rightarrow> string \<Rightarrow> string list option" where
  "segments_below q dir =
     (if dir = q then Some []
      else if q \<noteq> [] \<and> startswith dir (os_path_join q []) \<and> dir \<noteq> os_path_join q []
      then Some (split_slash (drop (length (os_path_join q [])) dir))
      else None)"

fun add_at :: "string list \<Rightarrow> string \<Rightarrow> fs_node \<Rightarrow> fs_node"
  and add_in :: "string \<Rightarrow> string list \<Rightarrow> string \<Rightarrow> (string \<times> fs_node) list
    \<Rightarrow> (string \<times> fs_node) list"
where
  "add_at segs name File = File"
| "add_at [] name (Dir entries) = Dir (entries @ [(name, File)])"
| "add_at (seg # segs) name (Dir entries) = Dir (add_in seg segs name entries)"
| "add_in seg segs name [] = []"
| "add_in seg segs name ((n, node) # es) =
     (if n = seg then (n, add_at segs name node) # es
      else (n, node) # add_in seg segs name es)"

definition tree_with_file :: "world \<Rightarrow> string \<Rightarrow> string \<Rightarrow> string \<Rightarrow> fs_node option" where
  "tree_with_file W dir name =
     (\<lambda>q. case tree_at W q of
            None \<Rightarrow> None
          | Some tree \<Rightarrow>
              (case segments_below q dir of
                 None \<Rightarrow> Some tree
               | Some segs \<Rightarrow> Some (add_at segs name tree)))"

text \<open>
  The loop over the uploads: each upload is written to a new temporary file
  (the write is taken to succeed; the file then exists, so it can be read,
  unlinked and met by a walk) and the mapping gets the upload's name as key
  and the temporary file's path as value.
\<close>

fun process_uploads :: "(nat \<Rightarrow> string) \<Rightarrow> nat \<Rightarrow> (string \<times> bytes) list
    \<Rightarrow> world \<times> files_dict \<Rightarrow> world \<times> files_dict" where
  "process_uploads rnd i [] (W, files_to_process) = (W, files_to_process)"
| "process_uploads rnd i ((name, content) # rest) (W, files_to_process) =
     (let tmp_name = NamedTemporaryFile_name W (rnd i)
      in process_uploads rnd (Suc i) rest
           (W\<lparr>files := (files W)(tmp_name := Inr content),
              unlink_error := (unlink_error W)(tmp_name := None),
              tree_at := tree_with_file W (tempdir W) (''tmp'' @ rnd i)\<rparr>,
            AList.update name tmp_name files_to_process))"

text \<open>\<^verbatim>\<open>d.update(other)\<close>: every item of \<open>other\<close> is assigned, in order.\<close>

definition dict_update :: "files_dict \<Rightarrow> files_dict \<Rightarrow> files_dict" where
  "dict_update d other = foldl (\<lambda>acc (k, v). AList.update k v acc) d other"

definition merge_directory :: "world \<Rightarrow> string \<Rightarrow> files_dict \<Rightarrow> files_dict" where
  "merge_directory W dir files_to_process =
     (if dir \<noteq> [] then
        (case tree_at W dir of
           Some tree \<Rightarrow> dict_update files_to_process (get_files_from_directory tree dir {})
         | None \<Rightarrow> files_to_process)
      else files_to_process)"

text \<open>The mapping \<^verbatim>\<open>files_to_process\<close> once both sources are in, with the
  world the uploads were written to.\<close>

definition discover :: "inputs \<Rightarrow> world \<Rightarrow> world \<times> files_dict" where
  "discover inp W =
     (let (W', uploads) = process_uploads (random_name inp) 0 (uploaded_files inp) (W, [])
      in (W', merge_directory W' (uploaded_dir inp) uploads))"

text \<open>The names whose checkbox is not ticked.\<close>

definition selection :: "(string \<Rightarrow> bool) \<Rightarrow> files_dict \<Rightarrow> string set" where
  "selection checked files_to_process =
     set (filter (\<lambda>file_name. \<not> checked file_name) (sort (map fst files_to_process)))"

definition header :: "string \<Rightarrow> string" where
  "header file_name =
     ''==================== '' @ file_name @ '' ====================\<newline>''"

text \<open>
  The loop that fills \<^verbatim>\<open>combined_content\<close>, over the sorted items of the
  mapping. An exception of \<^verbatim>\<open>extract_file_content\<close> would end the loop.
\<close>

fun combine :: "world \<Rightarrow> string set \<Rightarrow> files_dict \<Rightarrow> exn + string list" where
  "combine W ignore_list [] = Inr []"
| "combine W ignore_list ((file_name, file_path) # rest) =
     (if file_name \<notin> ignore_list then
        (case fst (extract_file_content W file_path) of
           Inl e \<Rightarrow> Inl e
         | Inr content \<Rightarrow>
             (case combine W ignore_list rest of
                Inl e \<Rightarrow> Inl e
              | Inr blocks \<Rightarrow> Inr (header file_name # (content @ ''\<newline>\<newline>'') # blocks)))
      else combine W ignore_list rest)"

text \<open>\<^verbatim>\<open>sep.join(parts)\<close>.\<close>

fun str_join :: "string \<Rightarrow> string list \<Rightarrow> string" where
  "str_join sep [] = []"
| "str_join sep [x] = x"
| "str_join sep (x # y # ys) = x @ sep @ str_join sep (y # ys)"

text \<open>
  The data handed to the download button; \<open>None\<close> when the mapping is empty or
  the button was not pressed.
\<close>

definition generate :: "world \<Rightarrow> files_dict \<Rightarrow> string set \<Rightarrow> bool \<Rightarrow> (exn + string) option" where
  "generate W files_to_process ignore_list pressed =
     (if files_to_process \<noteq> [] \<and> pressed then
        Some (case combine W ignore_list (sort files_to_process) of
                Inl e \<Rightarrow> Inl e
              | Inr combined_content \<Rightarrow> Inr (str_join ''\<newline>'' combined_content))
      else None)"

text \<open>
  \<^verbatim>\<open>os.unlink\<close>: it raises what the world says, or removes the file, after which
  the path can neither be read nor unlinked again. The text of the error for
  a missing file holds the path in quotes (\<^verbatim>\<open>repr\<close> of a path of printable
  characters without quote or backslash).
\<close>

definition no_such_file :: "string \<Rightarrow> exn" where
  "no_such_file p =
     OtherException (''[Errno 2] No such file or directory: '' @ [CHR 0x27] @ p @ [CHR 0x27])"

definition os_unlink :: "world \<Rightarrow> string \<Rightarrow> exn + world" where
  "os_unlink W p =
     (case unlink_error W p of
        Some e \<Rightarrow> Inl e
      | None \<Rightarrow>
          Inr (W\<lparr>files := (files W)(p := Inl (no_such_file p)),
                 unlink_error := (unlink_error W)(p := Some (no_such_file p))\<rparr>))"

text \<open>
  The state of the cleanup loop: the world, the messages given to \<^verbatim>\<open>st.error\<close>
  and the paths handed to \<^verbatim>\<open>os.unlink\<close>, both in order.
\<close>

record cleanup_state =
  disk :: world
  errors :: "string list"
  unlinked :: "string list"

fun cleanup :: "string list \<Rightarrow> cleanup_state \<Rightarrow> cleanup_state" where
  "cleanup [] s = s"
| "cleanup (path # rest) s =
     (if startswith path (tempdir (disk s)) then
        (case os_unlink (disk s) path of
           Inr W' \<Rightarrow> cleanup rest (s\<lparr>disk := W', unlinked := unlinked s @ [path]\<rparr>)
         | Inl e \<Rightarrow>
             cleanup rest
               (s\<lparr>errors := errors s @ [''Error cleaning up temporary file: '' @ str_exn e],
                  unlinked := unlinked s @ [path]\<rparr>))
      else cleanup rest s)"

text \<open>
  One run of the script. An exception of the generation would end the run
  before the cleanup; \<open>download\<close> then holds it and \<open>final\<close> is the state the
  cleanup would have started from.
\<close>

record outcome =
  mapping :: files_dict
  ignored :: "string set"
  download :: "(exn + string) option"
  final :: cleanup_state

definition page :: "inputs \<Rightarrow> world \<Rightarrow> outcome" where
  "page inp W =
     (let (W', files_to_process) = discover inp W;
          ignore_list = selection (checkbox inp) files_to_process;
          out = generate W' files_to_process ignore_list (button inp);
          start = \<lparr>disk = W', errors = [], unlinked = []\<rparr>
      in \<lparr>mapping = files_to_process, ignored = ignore_list, download = out,
          final = (case out of
                     Some (Inl e) \<Rightarrow> start
                   | _ \<Rightarrow> cleanup (map snd files_to_process) start)\<rparr>)"

subsection \<open>Names of directory entries\<close>



subsection \<open>File extensions\<close>

text \<open>
  \<^verbatim>\<open>posixpath.splitext\<close>, by which \<^verbatim>\<open>mimetypes.guess_type\<close> finds the extension
  it looks up: the extension starts at the last dot of the last path
  component, unless only dots stand before it in that component.
  \<open>rfind\<close> is \<^verbatim>\<open>str.rfind\<close> for one character: the last index, or \<open>-1\<close>.
\<close>

definition rfind :: "string \<Rightarrow> char \<Rightarrow> int" where
  "rfind p c =
     (if c \<in> set p then int (length p) - 1 - int (length (takeWhile (\<lambda>x. x \<noteq> c) (rev p)))
      else - 1)"

definition splitext :: "string \<Rightarrow> string \<times> string" where
  "splitext p =
     (let sepIndex = rfind p CHR ''/'';
          dotIndex = rfind p CHR ''.''
      in if dotIndex > sepIndex
            \<and> list_ex (\<lambda>x. x \<noteq> CHR ''.'') (drop (nat (sepIndex + 1)) (take (nat dotIndex) p))
         then (take (nat dotIndex) p, drop (nat dotIndex) p)
         else (p, []))"

subsection \<open>A concrete world\<close>

text \<open>
  A small world to run the functions in: a project directory \<^verbatim>\<open>proj\<close>, the
  temporary directory \<^verbatim>\<open>/tmp\<close> with a directory \<^verbatim>\<open>work\<close> in it, a directory
  \<^verbatim>\<open>/tmpfoo\<close> beside it, a directory \<^verbatim>\<open>//proj[1]\<close> typed with two slashes, and
  a type table that knows \<^verbatim>\<open>.txt\<close> and \<^verbatim>\<open>.png\<close>. The type guess raises on
  \<^verbatim>\<open>//proj[1]/a.txt\<close> what the library raises there.
\<close>

definition demo_files :: "(string \<times> (exn + bytes)) list" where
  "demo_files =
     [(''proj/a.txt'', Inr ''hello''),
      (''proj/logo.png'', Inr [CHR 0x89, CHR ''P'', CHR ''N'', CHR ''G'']),
      (''proj/locked.txt'', Inl (OtherException ''[Errno 13] Permission denied'')),
      (''proj/latin1.txt'', Inr [CHR ''c'', CHR ''a'', CHR ''f'', CHR 0xE9]),
      (''proj/node_modules/readme.md'', Inr ''docs''),
      (''//proj[1]/a.txt'', Inr ''hello''),
      (''/tmp/work/locked.txt'', Inr ''keep''),
      (''/tmp/work/notes.txt'', Inr ''notes''),
      (''/tmp/blob'', Inr [CHR 0x00, CHR 0xFF]),
      (''/tmp/plain'', Inr ''plain text''),
      (''/tmpfoo/keep.txt'', Inr ''keep me''),
      (''work/locked.txt'', Inr ''keep''),
      (''work/notes.txt'', Inr ''notes'')]"

definition invalid_address :: exn where
  "invalid_address =
     OtherException ([CHR 0x27] @ ''1' does not appear to be an IPv4 or IPv6 address'')"

definition demo_world :: world where
  "demo_world =
     \<lparr>guess_type = (\<lambda>p. if p = ''//proj[1]/a.txt'' then Inl invalid_address
                          else if snd (splitext p) = ''.txt'' then Inr (Some ''text/plain'')
                          else if snd (splitext p) = ''.png'' then Inr (Some ''image/png'')
                          else Inr None),
      files = (\<lambda>p. case map_of demo_files p of Some r \<Rightarrow> r | None \<Rightarrow> Inl (no_such_file p)),
      tree_at = (\<lambda>p. if p = ''proj''
                       then Some (Dir [(''a.txt'', File), (''logo.png'', File),
                                       (''node_modules'', Dir [(''readme.md'', File)])])
                       else if p = ''/tmp''
                       then Some (Dir [(''blob'', File), (''plain'', File),
                                       (''work'', Dir [(''locked.txt'', File),
                                                       (''notes.txt'', File)])])
                       else if p = ''/tmp/work'' \<or> p = ''work''
                       then Some (Dir [(''locked.txt'', File), (''notes.txt'', File)])
                       else if p = ''/tmpfoo'' then Some (Dir [(''keep.txt'', File)])
                       else if p = ''//proj[1]'' then Some (Dir [(''a.txt'', File)])
                       else None),
      tempdir = ''/tmp'',
      unlink_error = (\<lambda>p. if p = ''/tmp/work/locked.txt''
                            then Some (OtherException ''[Errno 13] Permission denied'')
                            else case map_of demo_files p of
                                   Some r \<Rightarrow> None
                                 | None \<Rightarrow> Some (no_such_file p))\<rparr>"

text \<open>Two uploads and no directory; every box ticked, the button pressed.\<close>

definition two_uploads :: inputs where
  "two_uploads =
     \<lparr>uploaded_files = [(''b.bin'', [CHR 0x00, CHR 0xFF]), (''a.txt'', ''hello'')],
      uploaded_dir = [],
      checkbox = (\<lambda>file_name. True),
      button = True,
      random_name = (\<lambda>i. if i = 0 then ''k3x9q2ab'' else ''_7hq0wzd'')\<rparr>"


text \<open>The directory \<^verbatim>\<open>proj\<close> and an upload whose bytes are no UTF-8 text and
  hold no null byte.\<close>

definition binary_upload_and_directory :: inputs where
  "binary_upload_and_directory =
     \<lparr>uploaded_files = [(''b.bin'', [CHR 0xFF, CHR 0xFE])],
      uploaded_dir = ''proj'',
      checkbox = (\<lambda>file_name. True),
      button = True,
      random_name = (\<lambda>i. ''k3x9q2ab'')\<rparr>"





text \<open>An upload and the temporary directory itself given as directory.\<close>

definition tempdir_as_directory :: inputs where
  "tempdir_as_directory =
     \<lparr>uploaded_files = [(''u.txt'', ''up'')],
      uploaded_dir = ''/tmp'',
      checkbox = (\<lambda>file_name. True),
      button = False,
      random_name = (\<lambda>i. ''k3x9q2ab'')\<rparr>"

text \<open>The directory typed with two slashes, the button pressed.\<close>

definition bracket_directory :: inputs where
  "bracket_directory =
     \<lparr>uploaded_files = [],
      uploaded_dir = ''//proj[1]'',
      checkbox = (\<lambda>file_name. True),
      button = True,
      random_name = (\<lambda>i. ''k3x9q2ab'')\<rparr>"

section \<open>Properties\<close>

subsection \<open>The ignore list and the glob match\<close>

lemma fnmatchcase_star: "fnmatchcase name ''*''"
  by (induction name) simp_all

lemma fnmatchcase_env_star: "fnmatchcase path ''env/*'' = startswith path ''env/''"
proof (cases path)
  case Nil
  then show ?thesis by (simp add: startswith_def)
next
  case (Cons a as)
  note p1 = this
  show ?thesis
  proof (cases as)
    case Nil
    with p1 show ?thesis by (auto simp: startswith_def)
  next
    case (Cons b bs)
    note p2 = this
    show ?thesis
    proof (cases bs)
      case Nil
      with p1 p2 show ?thesis by (auto simp: startswith_def)
    next
      case (Cons c cs)
      note p3 = this
      show ?thesis
      proof (cases cs)
        case Nil
        with p1 p2 p3 show ?thesis by (auto simp: startswith_def)
      next
        case (Cons d ds)
        with p1 p2 p3 show ?thesis by (auto simp: startswith_def fnmatchcase_star)
      qed
    qed
  qed
qed

text \<open>
  Claim C1: the ignore list is itemised, one entry per pattern, and every bare
  file name matching the rule \<^verbatim>\<open>*.pdf\<close>, such as \<^verbatim>\<open>report.pdf\<close>, is ignored.

  The list of the source has no entry \<^verbatim>\<open>*.pdf\<close>: the literal is joined to the
  \<^verbatim>\<open>'.DS_Store'\<close> before it, and \<^verbatim>\<open>should_ignore_path\<close> is false at
  \<^verbatim>\<open>report.pdf\<close>, while the neighbouring rule \<^verbatim>\<open>*.png\<close> works.
\<close>

theorem ignore_list_merges_pdf_rule:
  "''*.pdf'' \<notin> set ignore_patterns \<and> ''.DS_Store*.pdf'' \<in> set ignore_patterns
   \<and> should_ignore_path ''report.pdf'' = False
   \<and> should_ignore_path ''photo.png'' = True"
  by (simp add: should_ignore_path_def ignore_patterns_def fnmatch_def)

text \<open>
  Claim C5: patterns are matched against the whole string with \<^verbatim>\<open>*\<close> confined to
  one path segment, so that \<^verbatim>\<open>env/*\<close> matches \<^verbatim>\<open>env/<seg>\<close> and not
  \<^verbatim>\<open>env/<seg1>/<seg2>\<close>.

  What holds: the match is against the whole string and \<^verbatim>\<open>*\<close> matches every run
  of characters, a \<^verbatim>\<open>/\<close> included. The pattern \<^verbatim>\<open>env/*\<close> matches exactly the paths
  that start with \<^verbatim>\<open>env/\<close>: \<^verbatim>\<open>env/<seg>\<close> and \<^verbatim>\<open>env/<seg1>/<seg2>\<close> alike, and
  \<^verbatim>\<open>should_ignore_path\<close> is true for both.
\<close>

theorem env_star_matches_every_path_below:
  "fnmatch path ''env/*'' = startswith path ''env/''
   \<and> fnmatch (''env/'' @ seg) ''env/*''
   \<and> fnmatch (''env/'' @ seg1 @ ''/'' @ seg2) ''env/*''
   \<and> should_ignore_path (''env/'' @ seg1 @ ''/'' @ seg2)"
  by (simp add: fnmatch_def fnmatchcase_env_star startswith_def should_ignore_path_def
      ignore_patterns_def)

text \<open>A path two segments below \<^verbatim>\<open>env\<close> that the pattern \<^verbatim>\<open>env/*\<close> matches.\<close>

theorem star_crosses_slash_counterexample:
  "fnmatch ''env/lib/site.py'' ''env/*'' \<and> should_ignore_path ''env/lib/site.py''"
  by (simp add: should_ignore_path_def ignore_patterns_def fnmatch_def)

subsection \<open>The directory walk\<close>

text \<open>
  Claim C2: the result of \<^verbatim>\<open>get_files_from_directory\<close> holds no file below an
  ignored directory, at any depth; a \<^verbatim>\<open>readme.md\<close> under any \<^verbatim>\<open>node_modules\<close>
  directory of the tree is left out.

  The walk filters the subdirectories by their bare names, and the bare name
  \<^verbatim>\<open>node_modules\<close> matches no pattern (the rule is \<^verbatim>\<open>node_modules/*\<close>), so the
  directory is entered; below the top level the relative path of its files
  does not start with \<^verbatim>\<open>node_modules/\<close> either, and the file is collected.
\<close>

theorem nested_node_modules_is_collected:
  "get_files_from_directory
     (Dir [(''sub'', Dir [(''node_modules'', Dir [(''readme.md'', File)])])]) ''proj'' {}
   = [(''sub/node_modules/readme.md'', ''proj/sub/node_modules/readme.md'')]
   \<and> should_ignore_path ''node_modules'' = False"
  by (simp add: get_files_from_directory_def collect_file_def os_path_join_def rel_join_def
      startswith_def endswith_def should_ignore_path_def ignore_patterns_def fnmatch_def)





subsection \<open>The binary detector and the content extractor\<close>

lemma is_binary_file_eq:
  "is_binary_file W file_path =
     (case guess_type W file_path of
        Inl e \<Rightarrow> (Inl e, [])
      | Inr mime_type \<Rightarrow>
          if truthy mime_type
          then (Inr (\<not> startswith (the mime_type) ''text/''), [])
          else (Inr (case files W file_path of
                       Inl e \<Rightarrow> True
                     | Inr content \<Rightarrow> CHR 0x00 \<in> set (take 1024 content)),
                [OpenRb file_path]))"
  by (simp add: is_binary_file_def sniff_def read_chunk_def split: sum.splits)

lemma extract_fst:
  "fst (extract_file_content W file_path) =
     (case guess_type W file_path of
        Inl e \<Rightarrow> Inl e
      | Inr g \<Rightarrow>
          Inr (if fst (is_binary_file W file_path) = Inr True
               then ''[Skipped binary file: '' @ file_path @ '']''
               else (case read_text W file_path of
                       Inr content \<Rightarrow> content
                     | Inl UnicodeDecodeError \<Rightarrow>
                         ''[Skipped: File '' @ file_path @ '' is not valid UTF-8 text]''
                     | Inl (OtherException msg) \<Rightarrow>
                         ''[Error reading file '' @ file_path @ '': '' @ msg @ '']'')))"
  by (auto simp: extract_file_content_def is_binary_file_eq
      split: sum.splits exn.splits bool.splits)

lemma demo_guess_type:
  "guess_type demo_world ''proj/a.txt'' = Inr (Some ''text/plain'')"
  "guess_type demo_world ''proj/locked.txt'' = Inr (Some ''text/plain'')"
  "guess_type demo_world ''proj/latin1.txt'' = Inr (Some ''text/plain'')"
  "guess_type demo_world ''proj/logo.png'' = Inr (Some ''image/png'')"
  "guess_type demo_world ''/tmp/blob'' = Inr None"
  "guess_type demo_world ''/tmp/plain'' = Inr None"
  "guess_type demo_world ''/tmp/gone'' = Inr None"
  "guess_type demo_world ''//proj[1]/a.txt'' = Inl invalid_address"
  by (simp_all add: demo_world_def splitext_def rfind_def)

lemma demo_files_at:
  "files demo_world ''proj/a.txt'' = Inr ''hello''"
  "files demo_world ''proj/locked.txt'' = Inl (OtherException ''[Errno 13] Permission denied'')"
  "files demo_world ''proj/latin1.txt'' = Inr [CHR ''c'', CHR ''a'', CHR ''f'', CHR 0xE9]"
  "files demo_world ''/tmp/blob'' = Inr [CHR 0x00, CHR 0xFF]"
  "files demo_world ''/tmp/plain'' = Inr ''plain text''"
  "files demo_world ''/tmp/gone'' = Inl (no_such_file ''/tmp/gone'')"
  "files demo_world ''//proj[1]/a.txt'' = Inr ''hello''"
  by (simp_all add: demo_world_def demo_files_def)

text \<open>
  Claim C3: for every path \<^verbatim>\<open>is_binary_file\<close> never raises and decides in this
  order: by the guessed type when there is one, true iff it does not start with
  \<^verbatim>\<open>text/\<close>, without reading; else by a null byte in the first 1024 bytes; and
  true when the file cannot be opened or read.

  What holds: \<^verbatim>\<open>is_binary_file\<close> raises exactly when the type guess raises on
  the path, and then it raises that exception and opens nothing (the call
  stands before the \<^verbatim>\<open>try\<close>). Whenever the guess returns, it does not raise and
  decides in the order of the claim: a guessed type (\<^verbatim>\<open>if mime_type:\<close>, a type
  that is not the empty string) gives true iff it does not start with
  \<^verbatim>\<open>text/\<close>, and no file is opened; with no type, the file is opened once in
  binary mode and the answer is true iff the first 1024 bytes hold a null byte;
  when the file cannot be opened or read, the answer is true.
\<close>

theorem is_binary_file_decides_in_order:
  "is_binary_file W file_path =
     (case guess_type W file_path of
        Inl e \<Rightarrow> (Inl e, [])
      | Inr None \<Rightarrow>
          (Inr (case files W file_path of
                  Inl e \<Rightarrow> True
                | Inr content \<Rightarrow> CHR 0x00 \<in> set (take 1024 content)),
           [OpenRb file_path])
      | Inr (Some mime_type) \<Rightarrow>
          if mime_type = [] then
            (Inr (case files W file_path of
                    Inl e \<Rightarrow> True
                  | Inr content \<Rightarrow> CHR 0x00 \<in> set (take 1024 content)),
             [OpenRb file_path])
          else (Inr (\<not> startswith mime_type ''text/''), []))
   \<and> (\<exists>answer. fst (is_binary_file W file_path) = Inr answer)
       = (\<exists>guess. guess_type W file_path = Inr guess)
   \<and> (\<exists>e. fst (is_binary_file W file_path) = Inl e)
       = (\<exists>e. guess_type W file_path = Inl e)"
  by (auto simp: is_binary_file_eq split: sum.splits option.splits)

text \<open>The stages in the concrete world: a guessed type that is not text, a
  guessed text type, a null byte found, none found, a file that cannot be
  opened.\<close>

theorem is_binary_file_decides_in_order_witness:
  "is_binary_file demo_world ''proj/logo.png'' = (Inr True, [])
   \<and> is_binary_file demo_world ''proj/a.txt'' = (Inr False, [])
   \<and> is_binary_file demo_world ''/tmp/blob'' = (Inr True, [OpenRb ''/tmp/blob''])
   \<and> is_binary_file demo_world ''/tmp/plain'' = (Inr False, [OpenRb ''/tmp/plain''])
   \<and> is_binary_file demo_world ''/tmp/gone'' = (Inr True, [OpenRb ''/tmp/gone''])"
  using is_binary_file_decides_in_order [of demo_world "''proj/logo.png''"]
    is_binary_file_decides_in_order [of demo_world "''proj/a.txt''"]
    is_binary_file_decides_in_order [of demo_world "''/tmp/blob''"]
    is_binary_file_decides_in_order [of demo_world "''/tmp/plain''"]
    is_binary_file_decides_in_order [of demo_world "''/tmp/gone''"]
  by (simp add: demo_guess_type demo_files_at startswith_def)

text \<open>The file \<^verbatim>\<open>a.txt\<close> of a directory typed as \<^verbatim>\<open>//proj[1]\<close>: the type guess
  raises \<^verbatim>\<open>ValueError\<close> and so does \<^verbatim>\<open>is_binary_file\<close>.\<close>

theorem is_binary_file_raises_counterexample:
  "fst (is_binary_file demo_world ''//proj[1]/a.txt'') = Inl invalid_address"
  by (simp add: is_binary_file_eq demo_guess_type)

text \<open>
  Claim C6: \<^verbatim>\<open>extract_file_content\<close> is total and never raises; for every path
  it returns a string: the placeholder for a skipped binary file, naming the
  path, when the detector flags the file, without reading it; else the decoded
  text; else, when the decoding fails, the placeholder saying the file is not
  valid UTF-8; else the placeholder that holds the text of the exception.

  What holds: \<^verbatim>\<open>extract_file_content\<close> raises exactly when the type guess
  raises on the path (\<^verbatim>\<open>is_binary_file\<close> is called before the \<^verbatim>\<open>try\<close>), and then
  it raises that exception. Whenever the guess returns, it returns a string,
  in the four cases of the claim, and the file is opened for reading as text
  iff the detector answers false.
\<close>

theorem extract_file_content_total:
  "fst (extract_file_content W file_path) =
     (case guess_type W file_path of
        Inl e \<Rightarrow> Inl e
      | Inr guess \<Rightarrow>
          Inr (if fst (is_binary_file W file_path) = Inr True
               then ''[Skipped binary file: '' @ file_path @ '']''
               else (case read_text W file_path of
                       Inr content \<Rightarrow> content
                     | Inl UnicodeDecodeError \<Rightarrow>
                         ''[Skipped: File '' @ file_path @ '' is not valid UTF-8 text]''
                     | Inl (OtherException msg) \<Rightarrow>
                         ''[Error reading file '' @ file_path @ '': '' @ msg @ '']'')))
   \<and> (\<exists>text. fst (extract_file_content W file_path) = Inr text)
       = (\<exists>guess. guess_type W file_path = Inr guess)
   \<and> snd (extract_file_content W file_path) =
       (if fst (is_binary_file W file_path) = Inr False
        then snd (is_binary_file W file_path) @ [OpenText file_path]
        else snd (is_binary_file W file_path))
   \<and> (OpenText file_path \<in> set (snd (extract_file_content W file_path)))
       = (fst (is_binary_file W file_path) = Inr False)"
  by (auto simp: extract_file_content_def is_binary_file_eq
      split: sum.splits exn.splits bool.splits)

text \<open>The four outcomes in the concrete world.\<close>

theorem extract_file_content_total_witness:
  "extract_file_content demo_world ''proj/a.txt'' = (Inr ''hello'', [OpenText ''proj/a.txt''])
   \<and> extract_file_content demo_world ''proj/logo.png''
       = (Inr ''[Skipped binary file: proj/logo.png]'', [])
   \<and> extract_file_content demo_world ''proj/latin1.txt''
       = (Inr ''[Skipped: File proj/latin1.txt is not valid UTF-8 text]'',
          [OpenText ''proj/latin1.txt''])
   \<and> extract_file_content demo_world ''proj/locked.txt''
       = (Inr ''[Error reading file proj/locked.txt: [Errno 13] Permission denied]'',
          [OpenText ''proj/locked.txt''])"
  using extract_file_content_total [of demo_world "''proj/a.txt''"]
    extract_file_content_total [of demo_world "''proj/logo.png''"]
    extract_file_content_total [of demo_world "''proj/latin1.txt''"]
    extract_file_content_total [of demo_world "''proj/locked.txt''"]
  by (simp add: demo_guess_type demo_files_at is_binary_file_eq startswith_def read_text_def
      in_range_def prod_eq_iff)

text \<open>The same file: \<^verbatim>\<open>extract_file_content\<close> raises what the type guess raises.\<close>

theorem extract_file_content_raises_counterexample:
  "fst (extract_file_content demo_world ''//proj[1]/a.txt'') = Inl invalid_address"
  by (simp add: extract_fst demo_guess_type)

subsection \<open>Uploads and the merge with the directory\<close>









subsection \<open>The combined output\<close>

lemma combine_eq:
  "combine W ignore_list items =
     (case find (\<lambda>(file_name, file_path). isl (guess_type W file_path))
             (filter (\<lambda>(file_name, file_path). file_name \<notin> ignore_list) items) of
        Some (file_name, file_path) \<Rightarrow> Inl (projl (guess_type W file_path))
      | None \<Rightarrow>
          Inr (concat (map (\<lambda>(file_name, file_path).
                  [header file_name,
                   projr (fst (extract_file_content W file_path)) @ ''\<newline>\<newline>''])
                (filter (\<lambda>(file_name, file_path). file_name \<notin> ignore_list) items))))"
proof (induction items)
  case Nil
  then show ?case by simp
next
  case (Cons item items)
  obtain n p where item: "item = (n, p)" by (cases item)
  show ?case
  proof (cases "n \<in> ignore_list")
    case True
    then show ?thesis by (simp add: item Cons.IH cong: option.case_cong)
  next
    case False
    show ?thesis
    proof (cases "guess_type W p")
      case (Inl e)
      then have "fst (extract_file_content W p) = Inl e" by (simp add: extract_fst)
      then show ?thesis using False Inl by (simp add: item cong: option.case_cong)
    next
      case (Inr g)
      then obtain body where t: "fst (extract_file_content W p) = Inr body"
        by (simp add: extract_fst)
      show ?thesis using False Inr t
        by (simp add: item Cons.IH cong: option.case_cong split: option.splits)
    qed
  qed
qed

lemma str_join_pairs:
  "str_join sep (concat (map (\<lambda>(n, p). [h n, c p]) items))
   = str_join sep (map (\<lambda>(n, p). h n @ sep @ c p) items)"
proof (induction items)
  case Nil
  then show ?case by simp
next
  case (Cons item items)
  obtain n p where item: "item = (n, p)" by (cases item)
  show ?case
  proof (cases items)
    case Nil
    then show ?thesis by (simp add: item)
  next
    case (Cons item' items')
    obtain n' p' where item': "item' = (n', p')" by (cases item')
    show ?thesis using Cons.IH by (simp add: item item' Cons)
  qed
qed

lemma sorted_map_fst: "sorted (ps :: ('a::linorder \<times> 'b::linorder) list) \<Longrightarrow> sorted (map fst ps)"
  by (induction ps) (auto simp: less_eq_prod_def)

lemma map_fst_sort: "map fst (sort (ps :: ('a::linorder \<times> 'b::linorder) list)) = sort (map fst ps)"
proof -
  have "sort (map fst ps) = map fst (sort ps)"
    by (rule properties_for_sort) (simp_all add: sorted_map_fst)
  then show ?thesis by simp
qed

lemma sort_mset_cong: "mset xs = mset ys \<Longrightarrow> sort xs = sort (ys :: 'a::linorder list)"
  by (metis properties_for_sort sorted_sort mset_sort)

text \<open>
  Claim C8: every generation yields one block for every discovered file that is
  not excluded, in the lexicographic order of the relative names whatever the
  order of discovery; a block starts with the delimiter line, 20 \<^verbatim>\<open>=\<close>, a
  space, the name, a space, 20 \<^verbatim>\<open>=\<close>, and blank lines separate the blocks.

  What holds: with the button pressed and a mapping that is not empty, the
  generation raises when the type guess raises on the path of a sorted, not
  excluded item (the exception of the first such item), and there is no
  output then. In every other case the output is the blocks of the sorted,
  not excluded items joined by a newline, each block being the delimiter
  line, an empty line, the extracted text and two newlines; the names of the
  blocks are the sorted names without the excluded ones. Two mappings with the
  same items in another order give the same result.
\<close>

theorem combined_output_blocks:
  "generate W files_to_process ignore_list True =
     (if files_to_process = [] then None
      else Some
        (case find (\<lambda>(file_name, file_path). isl (guess_type W file_path))
                (filter (\<lambda>(file_name, file_path). file_name \<notin> ignore_list)
                   (sort files_to_process)) of
           Some (file_name, file_path) \<Rightarrow> Inl (projl (guess_type W file_path))
         | None \<Rightarrow>
             Inr (str_join ''\<newline>''
               (map (\<lambda>(file_name, file_path).
                       replicate 20 CHR ''='' @ '' '' @ file_name @ '' ''
                       @ replicate 20 CHR ''='' @ ''\<newline>''
                       @ ''\<newline>'' @ projr (fst (extract_file_content W file_path))
                       @ ''\<newline>\<newline>'')
                  (filter (\<lambda>(file_name, file_path). file_name \<notin> ignore_list)
                     (sort files_to_process))))))
   \<and> generate W files_to_process ignore_list False = None
   \<and> map fst (filter (\<lambda>(file_name, file_path). file_name \<notin> ignore_list) (sort files_to_process))
       = filter (\<lambda>file_name. file_name \<notin> ignore_list) (sort (map fst files_to_process))
   \<and> (mset files_to_process = mset discovered_otherwise \<longrightarrow>
        generate W files_to_process ignore_list pressed
        = generate W discovered_otherwise ignore_list pressed)"
proof -
  have h: "header n = replicate 20 CHR ''='' @ '' '' @ n @ '' '' @ replicate 20 CHR ''='' @ ''\<newline>''" for n
    by (simp add: header_def numeral_eq_Suc)
  have 1: "generate W files_to_process ignore_list True =
     (if files_to_process = [] then None
      else Some
        (case find (\<lambda>(file_name, file_path). isl (guess_type W file_path))
                (filter (\<lambda>(file_name, file_path). file_name \<notin> ignore_list)
                   (sort files_to_process)) of
           Some (file_name, file_path) \<Rightarrow> Inl (projl (guess_type W file_path))
         | None \<Rightarrow>
             Inr (str_join ''\<newline>''
               (map (\<lambda>(file_name, file_path).
                       replicate 20 CHR ''='' @ '' '' @ file_name @ '' ''
                       @ replicate 20 CHR ''='' @ ''\<newline>''
                       @ ''\<newline>'' @ projr (fst (extract_file_content W file_path))
                       @ ''\<newline>\<newline>'')
                  (filter (\<lambda>(file_name, file_path). file_name \<notin> ignore_list)
                     (sort files_to_process))))))"
  proof -
    have "(\<lambda>(file_name, file_path).
             replicate 20 CHR ''='' @ '' '' @ file_name @ '' ''
             @ replicate 20 CHR ''='' @ ''\<newline>''
             @ ''\<newline>'' @ projr (fst (extract_file_content W file_path))
             @ ''\<newline>\<newline>'')
          = (\<lambda>(file_name, file_path).
               header file_name @ ''\<newline>''
               @ (projr (fst (extract_file_content W file_path)) @ ''\<newline>\<newline>''))"
      by (simp add: h fun_eq_iff)
    then show ?thesis
      by (simp add: generate_def combine_eq str_join_pairs cong: option.case_cong
          split: option.splits)
  qed
  have 2: "generate W files_to_process ignore_list False = None"
    by (simp add: generate_def)
  have 3: "map fst (filter (\<lambda>(file_name, file_path). file_name \<notin> ignore_list) (sort files_to_process))
       = filter (\<lambda>file_name. file_name \<notin> ignore_list) (sort (map fst files_to_process))"
    by (simp add: map_fst_sort [symmetric] filter_map comp_def case_prod_unfold)
  have 4: "generate W files_to_process ignore_list pressed
        = generate W discovered_otherwise ignore_list pressed"
    if "mset files_to_process = mset discovered_otherwise"
  proof -
    have "sort files_to_process = sort discovered_otherwise"
      using that by (rule sort_mset_cong)
    moreover have "(files_to_process = []) = (discovered_otherwise = [])"
      using that by (metis mset_zero_iff)
    ultimately show ?thesis by (simp add: generate_def)
  qed
  show ?thesis
    apply (intro conjI impI)
       apply (rule 1)
      apply (rule 2)
     apply (rule 3)
    apply (erule 4)
    done
qed

text \<open>Three files, one of them excluded, discovered in two different orders.\<close>

theorem combined_output_blocks_witness:
  "mset [(''b.bin'', ''/tmp/blob''), (''a.txt'', ''proj/a.txt''), (''c.txt'', ''/tmp/plain'')]
     = mset [(''c.txt'', ''/tmp/plain''), (''a.txt'', ''proj/a.txt''), (''b.bin'', ''/tmp/blob'')]
   \<and> generate demo_world
        [(''b.bin'', ''/tmp/blob''), (''a.txt'', ''proj/a.txt''), (''c.txt'', ''/tmp/plain'')]
        {''c.txt''} True
       = Some (Inr ''==================== a.txt ====================\<newline>\<newline>hello\<newline>\<newline>\<newline>==================== b.bin ====================\<newline>\<newline>[Skipped binary file: /tmp/blob]\<newline>\<newline>'')
   \<and> generate demo_world
        [(''c.txt'', ''/tmp/plain''), (''a.txt'', ''proj/a.txt''), (''b.bin'', ''/tmp/blob'')]
        {''c.txt''} True
       = Some (Inr ''==================== a.txt ====================\<newline>\<newline>hello\<newline>\<newline>\<newline>==================== b.bin ====================\<newline>\<newline>[Skipped binary file: /tmp/blob]\<newline>\<newline>'')"
proof -
  let ?d1 = "[(''b.bin'', ''/tmp/blob''), (''a.txt'', ''proj/a.txt''), (''c.txt'', ''/tmp/plain'')]"
  let ?d2 = "[(''c.txt'', ''/tmp/plain''), (''a.txt'', ''proj/a.txt''), (''b.bin'', ''/tmp/blob'')]"
  have s: "sort ?d1 = [(''a.txt'', ''proj/a.txt''), (''b.bin'', ''/tmp/blob''), (''c.txt'', ''/tmp/plain'')]"
    by code_simp
  have a: "fst (extract_file_content demo_world ''proj/a.txt'') = Inr ''hello''"
    by code_simp
  have b: "fst (extract_file_content demo_world ''/tmp/blob'') = Inr ''[Skipped binary file: /tmp/blob]''"
    by code_simp
  have m: "mset ?d1 = mset ?d2"
    by (simp add: add_mset_commute)
  have r: "replicate 20 CHR ''='' = ''===================='' "
    by code_simp
  have g1: "generate demo_world ?d1 {''c.txt''} True
       = Some (Inr ''==================== a.txt ====================\<newline>\<newline>hello\<newline>\<newline>\<newline>==================== b.bin ====================\<newline>\<newline>[Skipped binary file: /tmp/blob]\<newline>\<newline>'')"
    using combined_output_blocks [of demo_world ?d1 "{''c.txt''}" ?d2 True]
    by (simp add: s a b r demo_guess_type)
  have g2: "generate demo_world ?d1 {''c.txt''} True = generate demo_world ?d2 {''c.txt''} True"
    using combined_output_blocks [of demo_world ?d1 "{''c.txt''}" ?d2 True] m by blast
  show ?thesis using m g1 g2 by simp
qed

text \<open>A run over the directory \<^verbatim>\<open>//proj[1]\<close> with the button pressed: one file
  is discovered and not excluded, the generation raises, and there is no
  output and no block.\<close>

theorem generation_raises_counterexample:
  "mapping (page bracket_directory demo_world) = [(''a.txt'', ''//proj[1]/a.txt'')]
   \<and> ignored (page bracket_directory demo_world) = {}
   \<and> button bracket_directory
   \<and> download (page bracket_directory demo_world) = Some (Inl invalid_address)"
  by code_simp

lemma a_before_b: "(''a.txt'', pa) < (''b.bin'', pb :: string)"
  by (simp add: less_prod_def less_char_def)

lemma sort_two:
  "sort [(''a.txt'', pa), (''b.bin'', pb :: string)] = [(''a.txt'', pa), (''b.bin'', pb)]"
  "sort [(''b.bin'', pb), (''a.txt'', pa :: string)] = [(''a.txt'', pa), (''b.bin'', pb)]"
  using a_before_b [of pa pb] by (auto simp: insort_is_Cons)

text \<open>
  Claim C4: with the mapping holding exactly \<^verbatim>\<open>a.txt\<close> (text \<^verbatim>\<open>hello\<close>) and
  \<^verbatim>\<open>b.bin\<close> (bytes that are not valid UTF-8), neither excluded, the output is
  two blocks, \<^verbatim>\<open>a.txt\<close> then \<^verbatim>\<open>b.bin\<close>, the first holding \<^verbatim>\<open>hello\<close>, the second
  a placeholder for a skipped binary file that names \<^verbatim>\<open>b.bin\<close>.

  What holds: the two blocks come in this order, headed by the delimiter lines
  of \<^verbatim>\<open>a.txt\<close> and \<^verbatim>\<open>b.bin\<close>, and the first holds \<^verbatim>\<open>hello\<close>. The text of the
  second block is a placeholder that names the path stored for \<^verbatim>\<open>b.bin\<close> (for
  an upload the path of its temporary copy), not the name: the placeholder of
  a skipped binary file when the detector flags that path, and the one for
  text that is not valid UTF-8 otherwise. With no type guessed for the stored
  path, the detector flags it iff the first 1024 bytes hold a null byte.
  (Should the type guess raise on the stored path of \<^verbatim>\<open>b.bin\<close>, the generation
  raises that exception and there is no output.)
\<close>

theorem two_files_two_blocks:
  assumes "files_to_process = [(''a.txt'', pa), (''b.bin'', pb)]
           \<or> files_to_process = [(''b.bin'', pb), (''a.txt'', pa)]"
    and "''a.txt'' \<notin> ignore_list" and "''b.bin'' \<notin> ignore_list"
    and "files W pa = Inr ''hello''"
    and "guess_type W pa = Inr None \<or> guess_type W pa = Inr (Some ''text/plain'')"
    and "files W pb = Inr content" and "\<not> utf8_valid content"
  shows "generate W files_to_process ignore_list True =
      Some (case guess_type W pb of
              Inl e \<Rightarrow> Inl e
            | Inr guess \<Rightarrow>
                Inr (''==================== a.txt ====================\<newline>''
                     @ ''\<newline>'' @ ''hello'' @ ''\<newline>\<newline>''
                     @ ''\<newline>''
                     @ ''==================== b.bin ====================\<newline>''
                     @ ''\<newline>''
                     @ (if fst (is_binary_file W pb) = Inr True
                        then ''[Skipped binary file: '' @ pb @ '']''
                        else ''[Skipped: File '' @ pb @ '' is not valid UTF-8 text]'')
                     @ ''\<newline>\<newline>''))
    \<and> (guess_type W pb = Inr None \<longrightarrow>
          fst (is_binary_file W pb) = Inr (CHR 0x00 \<in> set (take 1024 content)))"
proof -
  have s: "sort files_to_process = [(''a.txt'', pa), (''b.bin'', pb)]"
    using assms(1) sort_two by auto
  have na: "fst (is_binary_file W pa) = Inr False"
    using assms(4,5) by (auto simp: is_binary_file_eq startswith_def)
  have a: "fst (extract_file_content W pa) = Inr ''hello''"
    using na assms(4,5) by (auto simp: extract_fst read_text_def)
  have b: "fst (extract_file_content W pb) =
      (case guess_type W pb of
         Inl e \<Rightarrow> Inl e
       | Inr guess \<Rightarrow>
           Inr (if fst (is_binary_file W pb) = Inr True
                then ''[Skipped binary file: '' @ pb @ '']''
                else ''[Skipped: File '' @ pb @ '' is not valid UTF-8 text]''))"
    using assms(6,7) by (simp add: extract_fst read_text_def split: sum.splits)
  have ne: "files_to_process \<noteq> []" using assms(1) by auto
  have g: "generate W files_to_process ignore_list True =
      Some (case guess_type W pb of
              Inl e \<Rightarrow> Inl e
            | Inr guess \<Rightarrow>
                Inr (str_join ''\<newline>''
                  [header ''a.txt'', ''hello'' @ ''\<newline>\<newline>'', header ''b.bin'',
                   (if fst (is_binary_file W pb) = Inr True
                    then ''[Skipped binary file: '' @ pb @ '']''
                    else ''[Skipped: File '' @ pb @ '' is not valid UTF-8 text]'')
                   @ ''\<newline>\<newline>'']))"
    using ne assms(2,3) by (simp add: generate_def s a b split: sum.splits)
  have c: "guess_type W pb = Inr None \<longrightarrow>
          fst (is_binary_file W pb) = Inr (CHR 0x00 \<in> set (take 1024 content))"
    using assms(6) by (simp add: is_binary_file_eq)
  show ?thesis using c unfolding g by (simp add: header_def split: sum.splits)
qed

text \<open>The file \<^verbatim>\<open>a.txt\<close> of the directory \<^verbatim>\<open>proj\<close> and an uploaded \<^verbatim>\<open>b.bin\<close> whose
  bytes hold no null byte: the second block says the stored path is not valid
  UTF-8 text.\<close>

theorem two_files_two_blocks_witness:
  "(snd (discover binary_upload_and_directory demo_world)
      = [(''a.txt'', ''proj/a.txt''), (''b.bin'', ''/tmp/tmpk3x9q2ab'')]
    \<or> snd (discover binary_upload_and_directory demo_world)
      = [(''b.bin'', ''/tmp/tmpk3x9q2ab''), (''a.txt'', ''proj/a.txt'')])
   \<and> files (fst (discover binary_upload_and_directory demo_world)) ''proj/a.txt'' = Inr ''hello''
   \<and> files (fst (discover binary_upload_and_directory demo_world)) ''/tmp/tmpk3x9q2ab''
       = Inr [CHR 0xFF, CHR 0xFE]
   \<and> \<not> utf8_valid [CHR 0xFF, CHR 0xFE]
   \<and> generate (fst (discover binary_upload_and_directory demo_world))
        (snd (discover binary_upload_and_directory demo_world)) {} True
       = Some (Inr ''==================== a.txt ====================\<newline>\<newline>hello\<newline>\<newline>\<newline>==================== b.bin ====================\<newline>\<newline>[Skipped: File /tmp/tmpk3x9q2ab is not valid UTF-8 text]\<newline>\<newline>'')"
proof -
  let ?W = "fst (discover binary_upload_and_directory demo_world)"
  have m: "snd (discover binary_upload_and_directory demo_world)
      = [(''b.bin'', ''/tmp/tmpk3x9q2ab''), (''a.txt'', ''proj/a.txt'')]"
    by code_simp
  have fa: "files ?W ''proj/a.txt'' = Inr ''hello''"
    by code_simp
  have ga: "guess_type ?W ''proj/a.txt'' = Inr (Some ''text/plain'')"
    by code_simp
  have gb: "guess_type ?W ''/tmp/tmpk3x9q2ab'' = Inr None"
    by code_simp
  have fb: "files ?W ''/tmp/tmpk3x9q2ab'' = Inr [CHR 0xFF, CHR 0xFE]"
    by code_simp
  have nv: "\<not> utf8_valid [CHR 0xFF, CHR 0xFE]"
    by code_simp
  have nb: "fst (is_binary_file ?W ''/tmp/tmpk3x9q2ab'') = Inr False"
    by code_simp
  show ?thesis
    using two_files_two_blocks [of "snd (discover binary_upload_and_directory demo_world)"
        "''proj/a.txt''" "''/tmp/tmpk3x9q2ab''" "{}" ?W "[CHR 0xFF, CHR 0xFE]"]
      m fa ga gb fb nv nb
    by simp
qed

text \<open>Both files uploaded, \<^verbatim>\<open>b.bin\<close> with a null byte: the placeholder of the
  second block names the temporary copy \<^verbatim>\<open>/tmp/tmpk3x9q2ab\<close>; the name \<^verbatim>\<open>b.bin\<close>
  stands in the delimiter line only.\<close>

theorem placeholder_names_temporary_path_counterexample:
  "mapping (page two_uploads demo_world)
     = [(''b.bin'', ''/tmp/tmpk3x9q2ab''), (''a.txt'', ''/tmp/tmp_7hq0wzd'')]
   \<and> ignored (page two_uploads demo_world) = {}
   \<and> download (page two_uploads demo_world)
       = Some (Inr ''==================== a.txt ====================\<newline>\<newline>hello\<newline>\<newline>\<newline>==================== b.bin ====================\<newline>\<newline>[Skipped binary file: /tmp/tmpk3x9q2ab]\<newline>\<newline>'')"
  by code_simp

subsection \<open>Uploads are classified by their bytes\<close>

















subsection \<open>The cleanup\<close>
















end
